theory Spec2Isabelle
  imports Main
begin

section \<open>Python strings and dictionaries\<close>

text \<open>
  A Python \<open>str\<close> is a sequence of Unicode code points and \<open>len\<close> counts code
  points, so a string is modelled as a list of code points (natural numbers).
  \<open>py_str\<close> turns an ASCII literal of the source into such a list.
\<close>

type_synonym pystr = "nat list"

definition py_str :: "string \<Rightarrow> pystr" where
  "py_str s = map of_char s"

text \<open>
  \<open>str.strip()\<close> with no argument removes leading and trailing whitespace, that is the
  code points for which \<open>str.isspace\<close> holds: the ASCII controls 9-13 and 28-32,
  U+0085, U+00A0, U+1680, U+2000-U+200A, U+2028, U+2029, U+202F, U+205F and U+3000.
\<close>

definition isspace :: "nat \<Rightarrow> bool" where
  "isspace c \<longleftrightarrow>
     (9 \<le> c \<and> c \<le> 13) \<or> (28 \<le> c \<and> c \<le> 32) \<or> c = 133 \<or> c = 160 \<or> c = 5760 \<or>
     (8192 \<le> c \<and> c \<le> 8202) \<or> c = 8232 \<or> c = 8233 \<or> c = 8239 \<or> c = 8287 \<or>
     c = 12288"

definition strip :: "pystr \<Rightarrow> pystr" where
  "strip s = rev (dropWhile isspace (rev (dropWhile isspace s)))"

text \<open>A page is a \<open>Dict[str, str]\<close>; \<open>dict.get(key, default)\<close> never raises.\<close>

type_synonym page = "pystr \<rightharpoonup> pystr"

definition dict_get :: "page \<Rightarrow> pystr \<Rightarrow> pystr \<Rightarrow> pystr" where
  "dict_get d k dflt = (case d k of None \<Rightarrow> dflt | Some v \<Rightarrow> v)"

section \<open>The content packer\<close>

definition max_chars_per_page :: nat where
  "max_chars_per_page = 50000"

definition max_total_chars :: nat where
  "max_total_chars = 500000"

text \<open>
  The loop of \<open>_prepare_content_for_extraction\<close> over \<open>pages_data\<close>, with its two
  local variables \<open>formatted_pages\<close> and \<open>total_chars\<close> as accumulators. The
  \<open>continue\<close> goes on with the rest of the pages and an unchanged state, the
  \<open>break\<close> returns the state as it is.
\<close>

fun pack_loop :: "page list \<Rightarrow> pystr list \<Rightarrow> nat \<Rightarrow> pystr list" where
  "pack_loop [] formatted_pages total_chars = formatted_pages"
| "pack_loop (page # rest) formatted_pages total_chars =
     (let url = dict_get page (py_str ''url'') (py_str ''Unknown URL'');
          content = dict_get page (py_str ''content'') []
      in if strip content = [] then pack_loop rest formatted_pages total_chars
         else
           let content = (if length content > max_chars_per_page
                          then take max_chars_per_page content
                                 @ py_str ''\<newline>...[content truncated]''
                          else content);
               page_text = py_str ''--- PAGE: '' @ url @ py_str '' ---\<newline>''
                             @ content @ py_str ''\<newline>\<newline>''
           in if total_chars + length page_text > max_total_chars then formatted_pages
              else pack_loop rest (formatted_pages @ [page_text])
                     (total_chars + length page_text))"

definition prepare_content_for_extraction :: "page list \<Rightarrow> pystr" where
  "prepare_content_for_extraction pages_data = concat (pack_loop pages_data [] 0)"

section \<open>Vocabulary for the packer's properties\<close>

text \<open>The values the loop body computes for one page, named for the statements below.\<close>

definition page_url :: "page \<Rightarrow> pystr" where
  "page_url p = dict_get p (py_str ''url'') (py_str ''Unknown URL'')"

definition page_content :: "page \<Rightarrow> pystr" where
  "page_content p = dict_get p (py_str ''content'') []"

definition blank :: "pystr \<Rightarrow> bool" where
  "blank s \<longleftrightarrow> (\<forall>c \<in> set s. isspace c)"

definition truncation_marker :: pystr where
  "truncation_marker = py_str ''\<newline>...[content truncated]''"

definition capped :: "pystr \<Rightarrow> pystr" where
  "capped c = (if length c > max_chars_per_page
               then take max_chars_per_page c @ truncation_marker else c)"

definition framed :: "pystr \<Rightarrow> pystr \<Rightarrow> pystr" where
  "framed url c = py_str ''--- PAGE: '' @ url @ py_str '' ---\<newline>'' @ c
                    @ py_str ''\<newline>\<newline>''"

definition excerpt :: "page \<Rightarrow> pystr" where
  "excerpt p = framed (page_url p) (capped (page_content p))"

text \<open>The framed excerpts of the pages that are not skipped, ignoring the budget.\<close>

definition excerpts :: "page list \<Rightarrow> pystr list" where
  "excerpts ps = map excerpt (filter (\<lambda>p. \<not> blank (page_content p)) ps)"

definition framed_size :: "page list \<Rightarrow> nat" where
  "framed_size ps = length (concat (excerpts ps))"

text \<open>Concrete pages used to evaluate the packer.\<close>

definition huge_url_page :: page where
  "huge_url_page =
     [py_str ''url'' \<mapsto> replicate 500000 97, py_str ''content'' \<mapsto> py_str ''x'']"

definition near_budget_page :: page where
  "near_budget_page =
     [py_str ''url'' \<mapsto> replicate 499980 97, py_str ''content'' \<mapsto> py_str ''x'']"

definition small_page :: page where
  "small_page =
     [py_str ''url'' \<mapsto> py_str ''b.com'', py_str ''content'' \<mapsto> py_str ''Open 9-5'']"

definition blank_page :: page where
  "blank_page =
     [py_str ''url'' \<mapsto> py_str ''c.com'', py_str ''content'' \<mapsto> [32, 10, 9, 160]]"

definition long_page :: page where
  "long_page =
     [py_str ''url'' \<mapsto> py_str ''d.com'', py_str ''content'' \<mapsto> replicate 50001 120]"

definition no_url_page :: page where
  "no_url_page = [py_str ''content'' \<mapsto> py_str ''Call us'']"

definition no_content_page :: page where
  "no_content_page = [py_str ''url'' \<mapsto> py_str ''e.com'']"

section \<open>The response schema\<close>

text \<open>
  The three pydantic models. A field with a default is optional for the constructor;
  \<open>BusinessData()\<close> is the record of the defaults.
\<close>

record Professional =
  name :: pystr
  role :: pystr
  is_available :: bool

record BusinessHours =
  monday :: pystr
  tuesday :: pystr
  wednesday :: pystr
  thursday :: pystr
  friday :: pystr
  saturday :: pystr
  sunday :: pystr

record BusinessData =
  name :: pystr
  phoneNumber :: pystr
  address :: pystr
  city :: pystr
  state :: pystr
  pincode :: pystr
  website :: pystr
  email :: pystr
  businessHours :: BusinessHours
  is_24_7 :: bool
  holidayClosures :: pystr
  professionals :: "Professional list"
  manager :: pystr
  operationsLead :: pystr
  servicesOffered :: "pystr list"
  servicesNotOffered :: pystr
  specialties :: "pystr list"

definition BusinessHours_default :: BusinessHours where
  "BusinessHours_default =
     \<lparr>monday = [], tuesday = [], wednesday = [], thursday = [], friday = [],
      saturday = [], sunday = []\<rparr>"

definition BusinessData_default :: BusinessData where
  "BusinessData_default =
     \<lparr>name = [], phoneNumber = [], address = [], city = [], state = [], pincode = [],
      website = [], email = [], businessHours = BusinessHours_default, is_24_7 = False,
      holidayClosures = [], professionals = [], manager = [], operationsLead = [],
      servicesOffered = [], servicesNotOffered = [], specialties = []\<rparr>"

text \<open>
  The class \<open>BusinessData\<close> is also passed as a value, as \<open>response_schema\<close>: its
  declaration as data, one entry per field with the field's name, its annotation and its
  default, in the order of the class body.
\<close>

datatype py_type = TStr | TBool | TList py_type | TModel string

datatype py_value = VStr pystr | VBool bool | VList "py_value list"
  | VModel "(string \<times> py_value) list"

type_synonym model_fields = "(string \<times> py_type \<times> py_value) list"

definition BusinessHours_fields :: model_fields where
  "BusinessHours_fields =
     [(''monday'', TStr, VStr []), (''tuesday'', TStr, VStr []),
      (''wednesday'', TStr, VStr []), (''thursday'', TStr, VStr []),
      (''friday'', TStr, VStr []), (''saturday'', TStr, VStr []),
      (''sunday'', TStr, VStr [])]"

definition BusinessData_fields :: model_fields where
  "BusinessData_fields =
     [(''name'', TStr, VStr []),
      (''phoneNumber'', TStr, VStr []),
      (''address'', TStr, VStr []),
      (''city'', TStr, VStr []),
      (''state'', TStr, VStr []),
      (''pincode'', TStr, VStr []),
      (''website'', TStr, VStr []),
      (''email'', TStr, VStr []),
      (''businessHours'', TModel ''BusinessHours'',
         VModel (map (\<lambda>(n, t, d). (n, d)) BusinessHours_fields)),
      (''is_24_7'', TBool, VBool False),
      (''holidayClosures'', TStr, VStr []),
      (''professionals'', TList (TModel ''Professional''), VList []),
      (''manager'', TStr, VStr []),
      (''operationsLead'', TStr, VStr []),
      (''servicesOffered'', TList TStr, VList []),
      (''servicesNotOffered'', TStr, VStr []),
      (''specialties'', TList TStr, VList [])]"

definition str_fields :: "model_fields \<Rightarrow> string list" where
  "str_fields fs = map fst (filter (\<lambda>(n, t, d). t = TStr) fs)"

section \<open>The extraction orchestrator\<close>

definition GEMINI_MODEL :: pystr where
  "GEMINI_MODEL = py_str ''gemini-2.5-flash''"

text \<open>
  An exception is its class name and its message (\<open>str(e)\<close>). The type stands for the
  instances of Python's \<open>Exception\<close>, which is what \<open>except Exception\<close> catches.
\<close>

datatype py_exception = PyException (exc_class: string) (exc_str: pystr)

text \<open>
  \<open>settings.gemini_api_key\<close> comes from \<open>helpers.envHelper\<close>, which is not part of the
  sources at hand: the settings are a parameter. The key may be unset (\<open>None\<close>) or empty,
  and \<open>not api_key\<close> holds in both cases.
\<close>

record settings =
  gemini_api_key :: "pystr option"

record genai_Client =
  api_key :: pystr

definition get_gemini_client :: "settings \<Rightarrow> py_exception + genai_Client" where
  "get_gemini_client env =
     (let key = gemini_api_key env
      in if key = None \<or> key = Some []
         then Inl (PyException ''ValueError''
                (py_str ''Gemini API key is required. Set GEMINI_API_KEY environment variable.''))
         else Inr \<lparr>api_key = the key\<rparr>)"

definition build_extraction_prompt :: pystr where
  \<open>build_extraction_prompt = py_str
     ''You are a data extraction specialist. Extract structured information about a business from the provided website content.

Extract all available information about the business. The data will be validated against a strict schema and sent directly to a frontend form.

IMPORTANT: Return data in this exact structure - it will populate a form with ZERO transformation.

INSTRUCTIONS:
1. name: Extract the full business name (string)
   - If none found, return empty string ""

2. phoneNumbers: Extract ALL phone numbers as a comma-separated string
   - Format: "(555) 123-4567, (555) 123-4568" or "(555) 123-4567"
   - If multiple numbers, separate with comma and space
   - If none found, return empty string ""

3. address: Extract the primary street address only (string)
   - Format: "123 Oak Street" (street number and name only)
   - If none found, return empty string ""

4. city: Extract the city name (string)
   - If none found, return empty string ""

5. state: Extract the state name or abbreviation (string)
   - If none found, return empty string ""

6. pincode: Extract the ZIP/postal code (string)
   - If none found, return empty string ""

7. website: Extract the business's website URL (string)
   - If none found, return empty string ""

8. email: Extract the primary email address (string)
   - If none found, return empty string ""

9. businessHours: Extract business hours as a simple object with day keys
   - Format: Simple strings like "8:00 AM - 6:00 PM", "Closed", or "24/7"
   - Structure:
     {
       "monday": "8:00 AM - 6:00 PM",
       "tuesday": "8:00 AM - 6:00 PM",
       "wednesday": "8:00 AM - 6:00 PM",
       "thursday": "8:00 AM - 6:00 PM",
       "friday": "8:00 AM - 6:00 PM",
       "saturday": "9:00 AM - 2:00 PM",
       "sunday": "Closed"
     }
   - If hours not found for a day, use empty string ""
   - If business is 24/7, still populate hours (frontend will handle is_24_7 flag)

10. is_24_7: Set to true if business operates 24/7, otherwise false (boolean)
    - Default: false

11. holidayClosures: Extract information about holiday closures (string)
    - Format: "Closed for Thanksgiving. Limited hours on Christmas Eve."
    - If none found, return empty string ""

12. professionals: Extract key team members or professionals as an array of objects
    - Structure: {"name": "Full Name", "role": "Title/Role", "is_available": true/false}
    - is_available defaults to true if not specified
    - If none found, return empty array []

13. manager: Extract the manager or business owner's name (string)
    - If none found, return empty string ""

14. operationsLead: Extract the operations lead or technical head's name (string)
    - If none found, return empty string ""

15. servicesOffered: Extract ALL services offered as an array of strings
      - IMPORTANT: Map extracted services to the following STANDARD LIST if possible.
    - If a service on the website matches a standard service (even if named slightly differently), use the STANDARD NAME.
    - If it does not match any, use the name found on the website.
    - STANDARD SERVICE LIST:
      [
        "Wellness & Preventive Exams",
        "Puppy & Kitten Care Programs",
        "Vaccinations & Titers",
        "Flea, Tick & Heartworm Prevention",
        "Microchipping",
        "Senior Pet Wellness",
        "Nutrition & Diet Counseling",
        "Sick Pet Examinations",
        "Pain Management",
        "Internal Medicine Consults",
        "Anal Gland Expression",
        "In-House Laboratory",
        "Radiology (X-rays)",
        "Ultrasound",
        "Allergy Testing",
        "Cytology (Ear, Skin)",
        "Urinalysis/Fecal Exam",
        "Cardiac & Respiratory Diagnostics",
        "Spay/Neuter Surgery",
        "Soft Tissue Surgery",
        "Orthopedic Surgery",
        "Dental Cleaning & Extractions",
        "Dermatology",
        "Ophthalmology",
        "Oncology",
        "Behavioral Counseling",
        "Urgent Care Appointments",
        "Emergency Stabilization",
        "IV Fluid Therapy",
        "Post-Surgical Recovery Monitoring",
        "Isolation & Infectious Disease Care",
        "Quality of Life/Euthanasia Consult",
        "Hospice & Palliative Care",
        "Humane Euthanasia Services",
        "Laser Therapy",
        "Acupuncture",
        "Physical Therapy / Rehabilitation",
        "Homeopathy",
        "Medication Refill Pick-up",
        "Prescription Diet Pick-up"
      ]
    - Format: ["Standard Name 1", "Standard Name 2", "Other Found Name"]
    - If none found, return empty array []

16. servicesNotOffered: Extract services explicitly NOT offered (string)
    - Format: "Boarding, Grooming, Delivery"
    - Comma-separated if multiple
    - If none found, return empty string ""

17. specialties: Extract business specialties, categories, or focus areas as an array of strings
    - Format: ["Category 1", "Category 2"]
    - If none found, return empty array []

EMPTY VALUES STRATEGY:
- Arrays: Use empty array [] if no data found
- Strings: Use empty string "" if no data found
- Booleans: Use false as default (except for professionals.is_available which defaults to true)
- businessHours object: Return full structure with empty strings for each day if no data found

Only include information explicitly stated on the website.
Be thorough and accurate.

Website content:''\<close>

text \<open>
  What \<open>extract_business_data\<close> sends: the model name, the contents and the
  \<open>GenerateContentConfig\<close>.
\<close>

record GenerateContentConfig =
  temperature :: int
  response_mime_type :: pystr
  response_schema :: model_fields
  thinking_budget :: int

record generate_request =
  model :: pystr
  contents :: pystr
  config :: GenerateContentConfig

text \<open>
  The external service is a parameter: for a client and a request,
  \<open>client.aio.models.generate_content(...)\<close> followed by \<open>response.parsed\<close> either raises
  or yields the parsed value. The field \<open>parsed\<close> of the response is optional: it is
  \<open>None\<close> when the answer of the service could not be parsed into the schema, and a
  \<open>BusinessData\<close> otherwise.
\<close>

type_synonym gemini_service =
  "genai_Client \<Rightarrow> generate_request \<Rightarrow> py_exception + BusinessData option"

text \<open>
  \<open>logger.error(msg, exc_info=True)\<close> appends a record to the log; the logger comes from
  \<open>helpers.loggerHelper\<close> and is modelled by the list of records written so far.
\<close>

record log_record =
  levelname :: string
  msg :: pystr
  exc_info :: "py_exception option"

definition logger_error :: "pystr \<Rightarrow> py_exception \<Rightarrow> log_record list \<Rightarrow> log_record list" where
  "logger_error m e lg = lg @ [\<lparr>levelname = ''ERROR'', msg = m, exc_info = Some e\<rparr>]"

text \<open>
  \<open>extract_business_data\<close>: the result is the exception that reaches the caller
  (\<open>Inl\<close>) or the returned value (\<open>Inr\<close>), together with the log. The client is
  obtained and the content packed before the \<open>try\<close>; only the call of the service is
  inside it. The parsed value is returned as it is, with no check for \<open>None\<close>, so the
  returned value is a record (\<open>Some\<close>) or \<open>None\<close>.
\<close>

definition extract_business_data ::
  "settings \<Rightarrow> gemini_service \<Rightarrow> log_record list \<Rightarrow> page list \<Rightarrow> genai_Client option
     \<Rightarrow> (py_exception + BusinessData option) \<times> log_record list" where
  "extract_business_data env service lg pages_data client =
     (case (case client of None \<Rightarrow> get_gemini_client env | Some c \<Rightarrow> Inr c) of
        Inl e \<Rightarrow> (Inl e, lg)
      | Inr client \<Rightarrow>
          let combined_content = prepare_content_for_extraction pages_data;
              prompt = build_extraction_prompt
          in (case service client
                 \<lparr>model = GEMINI_MODEL,
                  contents = prompt @ py_str ''\<newline>\<newline>'' @ combined_content,
                  config = \<lparr>temperature = 0,
                            response_mime_type = py_str ''application/json'',
                            response_schema = BusinessData_fields,
                            thinking_budget = 0\<rparr>\<rparr> of
               Inr extracted_data \<Rightarrow> (Inr extracted_data, lg)
             | Inl e \<Rightarrow>
                 (Inr (Some BusinessData_default),
                  logger_error (py_str ''Error calling Gemini API: '' @ exc_str e) e lg)))"

section \<open>Vocabulary for the orchestrator's properties\<close>

text \<open>
  The credential is set when \<open>not api_key\<close> is false. \<open>configuration_error\<close> is the
  \<open>ValueError\<close> of \<open>get_gemini_client\<close>, \<open>generation_request\<close> the request that
  \<open>extract_business_data\<close> builds from the pages, and \<open>used_client\<close> the client it
  calls: the one passed in, or the one built from the settings.
\<close>

definition credential_set :: "settings \<Rightarrow> bool" where
  "credential_set env \<longleftrightarrow> gemini_api_key env \<noteq> None \<and> gemini_api_key env \<noteq> Some []"

definition configuration_error :: py_exception where
  "configuration_error = PyException ''ValueError''
     (py_str ''Gemini API key is required. Set GEMINI_API_KEY environment variable.'')"

definition generation_request :: "page list \<Rightarrow> generate_request" where
  "generation_request pages_data =
     \<lparr>model = GEMINI_MODEL,
      contents = build_extraction_prompt @ py_str ''\<newline>\<newline>''
                   @ prepare_content_for_extraction pages_data,
      config = \<lparr>temperature = 0, response_mime_type = py_str ''application/json'',
                response_schema = BusinessData_fields, thinking_budget = 0\<rparr>\<rparr>"

definition used_client :: "settings \<Rightarrow> genai_Client option \<Rightarrow> genai_Client" where
  "used_client env client =
     (case client of None \<Rightarrow> \<lparr>api_key = the (gemini_api_key env)\<rparr> | Some c \<Rightarrow> c)"

text \<open>Concrete settings, clients and services used to evaluate the orchestrator.\<close>

definition no_key_settings :: settings where
  "no_key_settings = \<lparr>gemini_api_key = None\<rparr>"

definition empty_key_settings :: settings where
  "empty_key_settings = \<lparr>gemini_api_key = Some []\<rparr>"

definition key_settings :: settings where
  "key_settings = \<lparr>gemini_api_key = Some (py_str ''secret'')\<rparr>"

definition stub_client :: genai_Client where
  "stub_client = \<lparr>api_key = py_str ''stub''\<rparr>"

definition timeout_error :: py_exception where
  "timeout_error = PyException ''TimeoutError'' (py_str ''timed out'')"

definition failing_service :: gemini_service where
  "failing_service c r = Inl timeout_error"

definition answering_service :: gemini_service where
  "answering_service c r =
     Inr (Some (BusinessData_default\<lparr>phoneNumber := py_str ''(555) 111-2222''\<rparr>))"

definition unparsed_service :: gemini_service where
  "unparsed_service c r = Inr None"

section \<open>The loop in terms of the vocabulary\<close>

lemma strip_empty_iff: "strip s = [] \<longleftrightarrow> blank s"
proof -
  have tail: "(\<forall>c \<in> set (dropWhile isspace s). isspace c) \<longleftrightarrow> dropWhile isspace s = []"
  proof
    assume all: "\<forall>c \<in> set (dropWhile isspace s). isspace c"
    show "dropWhile isspace s = []"
    proof (rule ccontr)
      assume ne: "dropWhile isspace s \<noteq> []"
      then have "\<not> isspace (hd (dropWhile isspace s))"
        by (rule hd_dropWhile)
      moreover have "hd (dropWhile isspace s) \<in> set (dropWhile isspace s)"
        using ne by (rule hd_in_set)
      ultimately show False using all by blast
    qed
  next
    assume e: "dropWhile isspace s = []"
    show "\<forall>c \<in> set (dropWhile isspace s). isspace c"
      unfolding e by simp
  qed
  have "strip s = [] \<longleftrightarrow> (\<forall>c \<in> set (dropWhile isspace s). isspace c)"
    by (simp add: strip_def)
  also have "\<dots> \<longleftrightarrow> dropWhile isspace s = []"
    by (rule tail)
  also have "\<dots> \<longleftrightarrow> blank s"
    by (simp add: blank_def)
  finally show ?thesis .
qed

lemma pack_loop_Cons:
  "pack_loop (p # rest) acc n =
     (if blank (page_content p) then pack_loop rest acc n
      else if n + length (excerpt p) > max_total_chars then acc
      else pack_loop rest (acc @ [excerpt p]) (n + length (excerpt p)))"
  by (simp add: Let_def strip_empty_iff page_content_def page_url_def excerpt_def
      framed_def capped_def truncation_marker_def)

declare pack_loop.simps(2) [simp del]


lemma pack_loop_acc: "pack_loop ps acc n = acc @ pack_loop ps [] n"
proof (induction ps arbitrary: acc n)
  case Nil
  show ?case by simp
next
  case (Cons p ps)
  have a: "pack_loop ps (acc @ [excerpt p]) (n + length (excerpt p))
             = (acc @ [excerpt p]) @ pack_loop ps [] (n + length (excerpt p))"
    by (rule Cons.IH)
  have b: "pack_loop ps ([] @ [excerpt p]) (n + length (excerpt p))
             = ([] @ [excerpt p]) @ pack_loop ps [] (n + length (excerpt p))"
    by (rule Cons.IH)
  have c: "pack_loop ps acc n = acc @ pack_loop ps [] n"
    by (rule Cons.IH)
  show ?case
    using a b c by (simp add: pack_loop_Cons)
qed

lemma excerpts_Nil: "excerpts [] = []"
  by (simp add: excerpts_def)

lemma excerpts_Cons:
  "excerpts (p # ps) = (if blank (page_content p) then excerpts ps else excerpt p # excerpts ps)"
  by (simp add: excerpts_def)

lemma excerpts_append: "excerpts (ps @ qs) = excerpts ps @ excerpts qs"
  by (simp add: excerpts_def)

lemma framed_size_Nil: "framed_size [] = 0"
  by (simp add: framed_size_def excerpts_Nil)

lemma framed_size_Cons:
  "framed_size (p # ps) =
     (if blank (page_content p) then framed_size ps else length (excerpt p) + framed_size ps)"
  by (simp add: framed_size_def excerpts_Cons)

lemma framed_size_append: "framed_size (ps @ qs) = framed_size ps + framed_size qs"
  by (simp add: framed_size_def excerpts_append)

lemma pack_loop_fits:
  "n + framed_size ps \<le> max_total_chars \<Longrightarrow>
   pack_loop (ps @ qs) acc n = pack_loop qs (acc @ excerpts ps) (n + framed_size ps)"
proof (induction ps arbitrary: acc n)
  case Nil
  show ?case by (simp add: excerpts_Nil framed_size_Nil)
next
  case (Cons p ps)
  show ?case
  proof (cases "blank (page_content p)")
    case True
    with Cons.prems have "n + framed_size ps \<le> max_total_chars"
      by (simp add: framed_size_Cons)
    then have "pack_loop (ps @ qs) acc n = pack_loop qs (acc @ excerpts ps) (n + framed_size ps)"
      by (rule Cons.IH)
    with True show ?thesis
      by (simp add: pack_loop_Cons excerpts_Cons framed_size_Cons)
  next
    case False
    with Cons.prems have le: "(n + length (excerpt p)) + framed_size ps \<le> max_total_chars"
      by (simp add: framed_size_Cons)
    then have "pack_loop (ps @ qs) (acc @ [excerpt p]) (n + length (excerpt p))
      = pack_loop qs ((acc @ [excerpt p]) @ excerpts ps) ((n + length (excerpt p)) + framed_size ps)"
      by (rule Cons.IH)
    with False le show ?thesis
      by (simp add: pack_loop_Cons excerpts_Cons framed_size_Cons add.assoc)
  qed
qed

lemma pack_loop_bound:
  "n \<le> max_total_chars \<Longrightarrow> n + length (concat (pack_loop ps [] n)) \<le> max_total_chars"
proof (induction ps arbitrary: n)
  case Nil
  then show ?case by simp
next
  case (Cons p ps)
  show ?case
  proof (cases "blank (page_content p) \<or> n + length (excerpt p) > max_total_chars")
    case True
    then show ?thesis
      using Cons.IH [OF Cons.prems] Cons.prems by (auto simp add: pack_loop_Cons)
  next
    case False
    then have le: "n + length (excerpt p) \<le> max_total_chars" by simp
    have "pack_loop (p # ps) [] n = excerpt p # pack_loop ps [] (n + length (excerpt p))"
      using False pack_loop_acc [of ps "[excerpt p]" "n + length (excerpt p)"]
      by (simp add: pack_loop_Cons)
    then show ?thesis
      using Cons.IH [OF le] by simp
  qed
qed

lemma pack_loop_skip:
  "blank (page_content p) \<Longrightarrow> pack_loop (pre @ p # post) acc n = pack_loop (pre @ post) acc n"
  by (induction pre arbitrary: acc n) (simp_all add: pack_loop_Cons)

lemma pack_loop_cutoff:
  "\<not> blank (page_content p) \<Longrightarrow>
   n + length (concat (pack_loop pre [] n)) + length (excerpt p) > max_total_chars \<Longrightarrow>
   pack_loop (pre @ p # post) acc n = pack_loop pre acc n"
proof (induction pre arbitrary: acc n)
  case Nil
  then show ?case by (simp add: pack_loop_Cons)
next
  case (Cons q pre)
  show ?case
  proof (cases "blank (page_content q) \<or> n + length (excerpt q) > max_total_chars")
    case True
    then show ?thesis
      using Cons.IH [OF Cons.prems(1), of n acc] Cons.prems(2)
      by (auto simp add: pack_loop_Cons)
  next
    case False
    have "pack_loop (q # pre) [] n = excerpt q # pack_loop pre [] (n + length (excerpt q))"
      using False pack_loop_acc [of pre "[excerpt q]" "n + length (excerpt q)"]
      by (simp add: pack_loop_Cons)
    with Cons.prems(2) have "(n + length (excerpt q))
        + length (concat (pack_loop pre [] (n + length (excerpt q)))) + length (excerpt p)
        > max_total_chars"
      by simp
    from Cons.IH [OF Cons.prems(1) this] False show ?thesis
      by (simp add: pack_loop_Cons)
  qed
qed

lemma pack_loop_all_blank:
  "\<forall>p \<in> set ps. blank (page_content p) \<Longrightarrow> pack_loop ps acc n = acc"
  by (induction ps) (simp_all add: pack_loop_Cons)

lemma first_over_budget:
  "max_total_chars < framed_size ps \<Longrightarrow>
   \<exists>pre p post. ps = pre @ p # post \<and> \<not> blank (page_content p) \<and>
      framed_size pre \<le> max_total_chars \<and>
      max_total_chars < framed_size pre + length (excerpt p)"
proof (induction ps rule: rev_induct)
  case Nil
  then show ?case by (simp add: framed_size_Nil)
next
  case (snoc x xs)
  show ?case
  proof (cases "max_total_chars < framed_size xs")
    case True
    from snoc.IH [OF True] obtain pre p post where
      "xs = pre @ p # post" "\<not> blank (page_content p)" "framed_size pre \<le> max_total_chars"
      "max_total_chars < framed_size pre + length (excerpt p)"
      by blast
    then have "xs @ [x] = pre @ p # (post @ [x]) \<and> \<not> blank (page_content p) \<and>
      framed_size pre \<le> max_total_chars \<and>
      max_total_chars < framed_size pre + length (excerpt p)"
      by simp
    then show ?thesis by blast
  next
    case False
    with snoc.prems have "xs @ [x] = xs @ x # [] \<and> \<not> blank (page_content x) \<and>
      framed_size xs \<le> max_total_chars \<and>
      max_total_chars < framed_size xs + length (excerpt x)"
      by (auto simp add: framed_size_append framed_size_Cons framed_size_Nil split: if_splits)
    then show ?thesis by blast
  qed
qed

lemma length_py_str: "length (py_str s) = length s"
  by (simp add: py_str_def)

lemma length_framed: "length (framed u c) = 17 + length u + length c"
  by (simp add: framed_def length_py_str)

lemma length_capped: "length (capped c) \<le> 50023"
  by (simp add: capped_def truncation_marker_def length_py_str max_chars_per_page_def)

lemma length_excerpt: "length (excerpt p) \<le> 50040 + length (page_url p)"
  using length_capped [of "page_content p"] by (simp add: excerpt_def length_framed)

lemma prepare_fits:
  "framed_size ps \<le> max_total_chars \<Longrightarrow>
   prepare_content_for_extraction ps = concat (excerpts ps)"
  using pack_loop_fits [of 0 ps "[]" "[]"]
  by (simp add: prepare_content_for_extraction_def)

lemma prepare_fits_append:
  "framed_size ps \<le> max_total_chars \<Longrightarrow>
   prepare_content_for_extraction (ps @ qs)
     = prepare_content_for_extraction ps @ concat (pack_loop qs [] (framed_size ps))"
  using pack_loop_fits [of 0 ps qs "[]"] pack_loop_acc [of qs "excerpts ps" "framed_size ps"]
    prepare_fits [of ps]
  by (simp add: prepare_content_for_extraction_def)

lemma prepare_accepts:
  assumes nb: "\<not> blank (page_content p)" and fits: "framed_size (pre @ [p]) \<le> max_total_chars"
  shows "\<exists>rest. prepare_content_for_extraction (pre @ p # post)
            = prepare_content_for_extraction pre @ excerpt p @ rest"
proof -
  from nb fits have le: "framed_size pre \<le> max_total_chars"
    by (simp add: framed_size_append framed_size_Cons)
  have "prepare_content_for_extraction ((pre @ [p]) @ post)
     = prepare_content_for_extraction (pre @ [p]) @ concat (pack_loop post [] (framed_size (pre @ [p])))"
    using fits by (rule prepare_fits_append)
  moreover have "prepare_content_for_extraction (pre @ [p])
     = prepare_content_for_extraction pre @ excerpt p"
    using nb prepare_fits [OF fits] prepare_fits [OF le]
    by (simp add: excerpts_append excerpts_Cons excerpts_Nil)
  ultimately show ?thesis by simp
qed

lemma framed_size_all_blank:
  "\<forall>q \<in> set ps. blank (page_content q) \<Longrightarrow> framed_size ps = 0"
  by (induction ps) (simp_all add: framed_size_Nil framed_size_Cons)

section \<open>The example pages\<close>

lemma page_lookup_simps:
  "page_url huge_url_page = replicate 500000 97"
  "page_content huge_url_page = py_str ''x''"
  "page_url near_budget_page = replicate 499980 97"
  "page_content near_budget_page = py_str ''x''"
  "page_url small_page = py_str ''b.com''"
  "page_content small_page = py_str ''Open 9-5''"
  "page_url blank_page = py_str ''c.com''"
  "page_content blank_page = [32, 10, 9, 160]"
  "page_url long_page = py_str ''d.com''"
  "page_content long_page = replicate 50001 120"
  "page_url no_url_page = py_str ''Unknown URL''"
  "page_content no_url_page = py_str ''Call us''"
  "page_url no_content_page = py_str ''e.com''"
  "page_content no_content_page = []"
  by (simp_all add: page_url_def page_content_def dict_get_def py_str_def
      huge_url_page_def near_budget_page_def small_page_def blank_page_def long_page_def
      no_url_page_def no_content_page_def)

lemma blank_examples:
  "\<not> blank (py_str ''x'')" "\<not> blank (py_str ''Open 9-5'')" "blank [32, 10, 9, 160]"
  "\<not> blank (replicate 50001 120)" "\<not> blank (py_str ''Call us'')" "blank []"
  by (simp_all add: blank_def isspace_def py_str_def)

lemma near_budget_facts:
  "length (excerpt near_budget_page) = 499998"
  "length (excerpt small_page) = 30"
  by (simp_all add: excerpt_def length_framed page_lookup_simps capped_def
      max_chars_per_page_def length_py_str)

section \<open>The orchestrator in terms of the vocabulary\<close>

lemma get_gemini_client_Inl:
  "get_gemini_client env = Inl e \<longleftrightarrow> \<not> credential_set env \<and> e = configuration_error"
  by (auto simp add: get_gemini_client_def credential_set_def configuration_error_def Let_def)

lemma get_gemini_client_Inr:
  "credential_set env \<Longrightarrow> get_gemini_client env = Inr \<lparr>api_key = the (gemini_api_key env)\<rparr>"
  by (auto simp add: get_gemini_client_def credential_set_def Let_def)

lemma extract_no_client:
  "client = None \<Longrightarrow> \<not> credential_set env \<Longrightarrow>
   extract_business_data env service lg pages_data client = (Inl configuration_error, lg)"
  using get_gemini_client_Inl [of env configuration_error]
  by (simp add: extract_business_data_def)

lemma extract_with_client:
  "client \<noteq> None \<or> credential_set env \<Longrightarrow>
   extract_business_data env service lg pages_data client =
     (case service (used_client env client) (generation_request pages_data) of
        Inr extracted_data \<Rightarrow> (Inr extracted_data, lg)
      | Inl e \<Rightarrow> (Inr (Some BusinessData_default),
                 logger_error (py_str ''Error calling Gemini API: '' @ exc_str e) e lg))"
proof (cases client)
  case None
  assume "client \<noteq> None \<or> credential_set env"
  with None have "credential_set env" by simp
  then have "get_gemini_client env = Inr \<lparr>api_key = the (gemini_api_key env)\<rparr>"
    by (rule get_gemini_client_Inr)
  with None show ?thesis
    by (simp add: extract_business_data_def used_client_def generation_request_def Let_def)
next
  case (Some c)
  then show ?thesis
    by (simp add: extract_business_data_def used_client_def generation_request_def Let_def)
qed

lemma extract_unparsed_answer:
  "client \<noteq> None \<or> credential_set env \<Longrightarrow>
   service (used_client env client) (generation_request pages_data) = Inr None \<Longrightarrow>
   extract_business_data env service lg pages_data client = (Inr None, lg)"
  using extract_with_client [of client env service lg pages_data] by simp

lemma extract_unparsed_answer_example:
  "extract_business_data no_key_settings unparsed_service [] [small_page] (Some stub_client)
     = (Inr None, [])"
  using extract_unparsed_answer [of "Some stub_client" no_key_settings unparsed_service
      "[small_page]" "[]"]
  by (simp add: unparsed_service_def)

lemma example_settings:
  "\<not> credential_set no_key_settings" "\<not> credential_set empty_key_settings"
  "credential_set key_settings"
  by (simp_all add: credential_set_def no_key_settings_def empty_key_settings_def
      key_settings_def py_str_def)

section \<open>Properties of the content packer\<close>

text \<open>
  Claim C4, as amended. The first page whose content is not blank is included in the
  packed output, at its start, whenever its URL has at most 449,960 characters: its
  framed excerpt then has at most 500,000 characters (17 of framing, the URL, and at most
  50,023 of capped content) and passes the budget check. The content is shortened by the
  per-page cap only.
\<close>

theorem first_qualifying_page_included:
  assumes "\<forall>q \<in> set pre. blank (page_content q)"
    and "\<not> blank (page_content p)"
    and "length (page_url p) \<le> 449960"
  shows "\<exists>rest. prepare_content_for_extraction (pre @ p # post) = excerpt p @ rest"
proof -
  have "framed_size pre = 0"
    using assms(1) by (rule framed_size_all_blank)
  moreover have "length (excerpt p) \<le> max_total_chars"
    using length_excerpt [of p] assms(3) by (simp add: max_total_chars_def)
  ultimately have fits: "framed_size (pre @ [p]) \<le> max_total_chars"
    using assms(2) by (simp add: framed_size_append framed_size_Cons framed_size_Nil)
  have "prepare_content_for_extraction pre = []"
    using assms(1) by (simp add: prepare_content_for_extraction_def pack_loop_all_blank)
  with prepare_accepts [OF assms(2) fits, of post] show ?thesis by simp
qed

theorem first_qualifying_page_included_witness:
  "blank (page_content blank_page) \<and> \<not> blank (page_content small_page)
   \<and> length (page_url small_page) \<le> 449960
   \<and> (\<exists>rest. prepare_content_for_extraction ([blank_page] @ small_page # [long_page])
          = excerpt small_page @ rest)"
proof -
  have h1: "\<forall>q \<in> set [blank_page]. blank (page_content q)"
    by (simp add: page_lookup_simps blank_examples)
  have h2: "\<not> blank (page_content small_page)"
    by (simp add: page_lookup_simps blank_examples)
  have h3: "length (page_url small_page) \<le> 449960"
    by (simp add: page_lookup_simps py_str_def)
  show ?thesis
    using h1 h2 h3 first_qualifying_page_included [OF h1 h2 h3, of "[long_page]"] by simp
qed

text \<open>
  Claim C4 as stated fails: the budget check applies to the first page as to every
  other page and counts the URL, which is not capped. A single page with a URL of
  500,000 characters and the content \<open>x\<close> is dropped, and the output is empty.
\<close>

theorem first_page_dropped_counterexample:
  "\<not> blank (page_content huge_url_page) \<and> prepare_content_for_extraction [huge_url_page] = []"
  by (simp add: prepare_content_for_extraction_def pack_loop_Cons page_lookup_simps
      blank_examples excerpt_def length_framed max_total_chars_def)

text \<open>
  Claim C5. When the framed excerpts of the pages that are not blank have more than
  500,000 characters together, the output has at most 500,000 characters (so it is within
  the claimed bound of 500,000 plus one page's framing); there is a first page that fails
  the budget check, and the output is exactly the excerpts of the pages before it; and
  whenever a page that is not blank fails the budget check after the pages \<open>pre\<close>,
  the output is the packing of \<open>pre\<close> alone, whatever that page and the pages after
  it are.
\<close>

theorem budget_cutoff:
  assumes "max_total_chars < framed_size pages_data"
  shows "length (prepare_content_for_extraction pages_data) \<le> max_total_chars
    \<and> (\<exists>pre p post. pages_data = pre @ p # post \<and> \<not> blank (page_content p)
          \<and> max_total_chars < length (prepare_content_for_extraction pre) + length (excerpt p)
          \<and> prepare_content_for_extraction pre = concat (excerpts pre)
          \<and> prepare_content_for_extraction pages_data = prepare_content_for_extraction pre)
    \<and> (\<forall>pre p post. pages_data = pre @ p # post \<and> \<not> blank (page_content p)
          \<and> max_total_chars < length (prepare_content_for_extraction pre) + length (excerpt p)
          \<longrightarrow> prepare_content_for_extraction pages_data = prepare_content_for_extraction pre)"
proof -
  have cut: "prepare_content_for_extraction (pre @ p # post) = prepare_content_for_extraction pre"
    if "\<not> blank (page_content p)"
      and "max_total_chars < length (prepare_content_for_extraction pre) + length (excerpt p)"
    for pre p post
    using that pack_loop_cutoff [of p 0 pre post "[]"]
    by (simp add: prepare_content_for_extraction_def)
  have bound: "length (prepare_content_for_extraction pages_data) \<le> max_total_chars"
    using pack_loop_bound [of 0 pages_data] by (simp add: prepare_content_for_extraction_def)
  from first_over_budget [OF assms] obtain pre p post where
    dec: "pages_data = pre @ p # post" and nb: "\<not> blank (page_content p)"
    and le: "framed_size pre \<le> max_total_chars"
    and gt: "max_total_chars < framed_size pre + length (excerpt p)"
    by blast
  have eq: "prepare_content_for_extraction pre = concat (excerpts pre)"
    using le by (rule prepare_fits)
  then have gt': "max_total_chars < length (prepare_content_for_extraction pre) + length (excerpt p)"
    using gt by (simp add: framed_size_def)
  have "prepare_content_for_extraction pages_data = prepare_content_for_extraction pre"
    unfolding dec using nb gt' by (rule cut)
  with dec nb gt' eq have ex: "\<exists>pre p post. pages_data = pre @ p # post \<and> \<not> blank (page_content p)
          \<and> max_total_chars < length (prepare_content_for_extraction pre) + length (excerpt p)
          \<and> prepare_content_for_extraction pre = concat (excerpts pre)
          \<and> prepare_content_for_extraction pages_data = prepare_content_for_extraction pre"
    by blast
  have all: "\<forall>pre p post. pages_data = pre @ p # post \<and> \<not> blank (page_content p)
          \<and> max_total_chars < length (prepare_content_for_extraction pre) + length (excerpt p)
          \<longrightarrow> prepare_content_for_extraction pages_data = prepare_content_for_extraction pre"
    using cut by blast
  from bound ex all show ?thesis by blast
qed

theorem budget_cutoff_witness:
  "max_total_chars < framed_size [near_budget_page, small_page]
   \<and> length (prepare_content_for_extraction [near_budget_page, small_page]) \<le> max_total_chars
   \<and> prepare_content_for_extraction [near_budget_page, small_page] = excerpt near_budget_page"
proof -
  have h: "max_total_chars < framed_size [near_budget_page, small_page]"
    by (simp add: framed_size_Cons framed_size_Nil page_lookup_simps blank_examples
        near_budget_facts max_total_chars_def)
  have one: "prepare_content_for_extraction [near_budget_page] = excerpt near_budget_page"
    using prepare_fits [of "[near_budget_page]"]
    by (simp add: framed_size_Cons framed_size_Nil excerpts_Cons excerpts_Nil page_lookup_simps
        blank_examples near_budget_facts max_total_chars_def)
  have pre: "[near_budget_page, small_page] = [near_budget_page] @ small_page # []
      \<and> \<not> blank (page_content small_page)
      \<and> max_total_chars < length (prepare_content_for_extraction [near_budget_page])
            + length (excerpt small_page)"
    by (simp add: one near_budget_facts page_lookup_simps blank_examples max_total_chars_def)
  from budget_cutoff [OF h] have
    "length (prepare_content_for_extraction [near_budget_page, small_page]) \<le> max_total_chars"
    and "\<forall>pre p post. [near_budget_page, small_page] = pre @ p # post \<and> \<not> blank (page_content p)
          \<and> max_total_chars < length (prepare_content_for_extraction pre) + length (excerpt p)
          \<longrightarrow> prepare_content_for_extraction [near_budget_page, small_page]
                = prepare_content_for_extraction pre"
    by blast+
  with pre have "length (prepare_content_for_extraction [near_budget_page, small_page]) \<le> max_total_chars"
    and "prepare_content_for_extraction [near_budget_page, small_page]
          = prepare_content_for_extraction [near_budget_page]"
    by blast+
  with h one show ?thesis by simp
qed

text \<open>
  Claim C6. For a page whose content has more than 50,000 characters, the excerpt is the
  header with the URL, exactly the first 50,000 characters of the content, the
  truncation marker and the two closing newlines; this excerpt is the output for the page
  alone, and it stands in the output after the packing of the pages before whenever the
  page is accepted (its content is not blank and the budget holds up to it).
\<close>

theorem long_page_truncated:
  assumes "50000 < length (page_content p)"
  shows "length (take 50000 (page_content p)) = 50000
    \<and> excerpt p = py_str ''--- PAGE: '' @ page_url p @ py_str '' ---\<newline>''
          @ take 50000 (page_content p) @ py_str ''\<newline>...[content truncated]''
          @ py_str ''\<newline>\<newline>''
    \<and> (\<not> blank (page_content p) \<and> length (page_url p) \<le> 449960
          \<longrightarrow> prepare_content_for_extraction [p] = excerpt p)
    \<and> (\<not> blank (page_content p) \<and> framed_size (pre @ [p]) \<le> max_total_chars
          \<longrightarrow> (\<exists>rest. prepare_content_for_extraction (pre @ p # post)
                  = prepare_content_for_extraction pre @ excerpt p @ rest))"
proof -
  have a: "length (take 50000 (page_content p)) = 50000"
    using assms by simp
  have b: "excerpt p = py_str ''--- PAGE: '' @ page_url p @ py_str '' ---\<newline>''
          @ take 50000 (page_content p) @ py_str ''\<newline>...[content truncated]''
          @ py_str ''\<newline>\<newline>''"
    using assms
    by (simp add: excerpt_def framed_def capped_def truncation_marker_def max_chars_per_page_def)
  have c: "prepare_content_for_extraction [p] = excerpt p"
    if "\<not> blank (page_content p)" "length (page_url p) \<le> 449960"
  proof -
    have "length (excerpt p) \<le> max_total_chars"
      using length_excerpt [of p] that(2) by (simp add: max_total_chars_def)
    then have "framed_size [p] \<le> max_total_chars"
      using that(1) by (simp add: framed_size_Cons framed_size_Nil)
    from prepare_fits [OF this] that(1) show ?thesis
      by (simp add: excerpts_Cons excerpts_Nil)
  qed
  have d: "\<exists>rest. prepare_content_for_extraction (pre @ p # post)
                  = prepare_content_for_extraction pre @ excerpt p @ rest"
    if "\<not> blank (page_content p)" "framed_size (pre @ [p]) \<le> max_total_chars"
    using that by (rule prepare_accepts)
  from a b c d show ?thesis by blast
qed

theorem long_page_truncated_witness:
  "50000 < length (page_content long_page)
   \<and> prepare_content_for_extraction [long_page]
       = py_str ''--- PAGE: '' @ py_str ''d.com'' @ py_str '' ---\<newline>''
          @ replicate 50000 120 @ py_str ''\<newline>...[content truncated]''
          @ py_str ''\<newline>\<newline>''"
proof -
  have h: "50000 < length (page_content long_page)"
    by (simp add: page_lookup_simps)
  have nb: "\<not> blank (page_content long_page) \<and> length (page_url long_page) \<le> 449960"
    by (simp add: page_lookup_simps blank_examples length_py_str)
  have tk: "take 50000 (page_content long_page) = replicate 50000 120"
    by (simp add: page_lookup_simps)
  from long_page_truncated [OF h, of "[]" "[]"] nb
  have "prepare_content_for_extraction [long_page] = excerpt long_page"
    and "excerpt long_page = py_str ''--- PAGE: '' @ page_url long_page @ py_str '' ---\<newline>''
          @ take 50000 (page_content long_page) @ py_str ''\<newline>...[content truncated]''
          @ py_str ''\<newline>\<newline>''"
    by blast+
  with h tk show ?thesis by (simp add: page_lookup_simps)
qed

text \<open>
  Claim C7. A page whose content is empty or only whitespace can be removed from the
  input without changing the output, whatever pages come before and after it: it adds
  nothing to the output and nothing to the running total. When every page is blank the
  output is the empty string.
\<close>

theorem blank_page_contributes_nothing:
  "(blank (page_content p) \<longrightarrow>
      prepare_content_for_extraction (pre @ p # post) = prepare_content_for_extraction (pre @ post))
   \<and> ((\<forall>q \<in> set ps. blank (page_content q)) \<longrightarrow> prepare_content_for_extraction ps = [])"
  by (simp add: prepare_content_for_extraction_def pack_loop_skip pack_loop_all_blank)

theorem blank_page_contributes_nothing_witness:
  "blank (page_content blank_page)
   \<and> prepare_content_for_extraction ([small_page] @ blank_page # [no_url_page])
       = prepare_content_for_extraction ([small_page] @ [no_url_page])
   \<and> prepare_content_for_extraction [blank_page, no_content_page] = []"
proof -
  have h1: "blank (page_content blank_page)"
    by (simp add: page_lookup_simps blank_examples)
  have h2: "\<forall>q \<in> set [blank_page, no_content_page]. blank (page_content q)"
    by (simp add: page_lookup_simps blank_examples)
  show ?thesis
    using h1 h2 blank_page_contributes_nothing [of blank_page "[small_page]" "[no_url_page]"
        "[blank_page, no_content_page]"]
    by simp
qed

text \<open>
  Claim C9. For every input the output has at most 500,000 characters: the budget check
  counts the whole framed excerpt, so there is no overshoot.
\<close>

theorem pack_length_within_budget:
  "length (prepare_content_for_extraction pages_data) \<le> 500000"
  using pack_loop_bound [of 0 pages_data]
  by (simp add: prepare_content_for_extraction_def max_total_chars_def)

theorem pack_length_within_budget_witness:
  "length (prepare_content_for_extraction [near_budget_page, small_page]) \<le> 500000"
  using pack_length_within_budget [of "[near_budget_page, small_page]"] .

text \<open>
  Claim C10. A page without the key \<open>url\<close> and with content that is not blank is
  framed with the header \<open>--- PAGE: Unknown URL ---\<close>: this is the whole output for
  the page alone (it always fits the budget), and it stands in the output after the
  packing of the pages before whenever the budget holds up to it. A page without the key
  \<open>content\<close> has the empty content and can be removed from the input without changing
  the output.
\<close>

theorem missing_keys_defaults:
  "(p (py_str ''url'') = None \<and> \<not> blank (page_content p)
      \<longrightarrow> prepare_content_for_extraction [p]
            = py_str ''--- PAGE: Unknown URL ---\<newline>'' @ capped (page_content p)
                @ py_str ''\<newline>\<newline>'')
   \<and> (p (py_str ''url'') = None \<and> \<not> blank (page_content p)
        \<and> framed_size (pre @ [p]) \<le> max_total_chars
      \<longrightarrow> (\<exists>rest. prepare_content_for_extraction (pre @ p # post)
            = prepare_content_for_extraction pre
                @ (py_str ''--- PAGE: Unknown URL ---\<newline>'' @ capped (page_content p)
                     @ py_str ''\<newline>\<newline>'') @ rest))
   \<and> (q (py_str ''content'') = None
      \<longrightarrow> page_content q = []
          \<and> prepare_content_for_extraction (pre @ q # post)
              = prepare_content_for_extraction (pre @ post))"
proof -
  have ex: "excerpt p = py_str ''--- PAGE: Unknown URL ---\<newline>'' @ capped (page_content p)
                @ py_str ''\<newline>\<newline>''" and url: "length (page_url p) = 11"
    if "p (py_str ''url'') = None"
    using that by (simp_all add: excerpt_def framed_def page_url_def dict_get_def py_str_def)
  have a: "prepare_content_for_extraction [p] = excerpt p"
    if "p (py_str ''url'') = None" "\<not> blank (page_content p)"
  proof -
    have "length (excerpt p) \<le> max_total_chars"
      using length_excerpt [of p] url [OF that(1)] by (simp add: max_total_chars_def)
    then have "framed_size [p] \<le> max_total_chars"
      using that(2) by (simp add: framed_size_Cons framed_size_Nil)
    from prepare_fits [OF this] that(2) show ?thesis
      by (simp add: excerpts_Cons excerpts_Nil)
  qed
  have b: "\<exists>rest. prepare_content_for_extraction (pre @ p # post)
            = prepare_content_for_extraction pre @ excerpt p @ rest"
    if "\<not> blank (page_content p)" "framed_size (pre @ [p]) \<le> max_total_chars"
    using that by (rule prepare_accepts)
  have c: "page_content q = [] \<and> prepare_content_for_extraction (pre @ q # post)
              = prepare_content_for_extraction (pre @ post)"
    if "q (py_str ''content'') = None"
  proof -
    have e: "page_content q = []"
      using that by (simp add: page_content_def dict_get_def)
    then have "blank (page_content q)" by (simp add: blank_def)
    with e show ?thesis
      by (simp add: prepare_content_for_extraction_def pack_loop_skip)
  qed
  have a2: "prepare_content_for_extraction [p]
            = py_str ''--- PAGE: Unknown URL ---\<newline>'' @ capped (page_content p)
                @ py_str ''\<newline>\<newline>''"
    if "p (py_str ''url'') = None \<and> \<not> blank (page_content p)"
    using that a ex by simp
  have b2: "\<exists>rest. prepare_content_for_extraction (pre @ p # post)
            = prepare_content_for_extraction pre
                @ (py_str ''--- PAGE: Unknown URL ---\<newline>'' @ capped (page_content p)
                     @ py_str ''\<newline>\<newline>'') @ rest"
    if "p (py_str ''url'') = None \<and> \<not> blank (page_content p)
        \<and> framed_size (pre @ [p]) \<le> max_total_chars"
    using that b ex by simp
  from a2 b2 c show ?thesis by blast
qed

theorem missing_keys_defaults_witness:
  "no_url_page (py_str ''url'') = None \<and> no_content_page (py_str ''content'') = None
   \<and> prepare_content_for_extraction [no_url_page]
        = py_str ''--- PAGE: Unknown URL ---\<newline>Call us\<newline>\<newline>''
   \<and> prepare_content_for_extraction ([small_page] @ no_content_page # [no_url_page])
        = prepare_content_for_extraction ([small_page] @ [no_url_page])"
proof -
  have h0: "no_url_page (py_str ''url'') = None"
    by (simp add: no_url_page_def py_str_def)
  have "\<not> blank (page_content no_url_page)"
    by (simp add: page_lookup_simps blank_examples)
  with h0 have h1: "no_url_page (py_str ''url'') = None \<and> \<not> blank (page_content no_url_page)"
    by blast
  have h2: "no_content_page (py_str ''content'') = None"
    by (simp add: no_content_page_def py_str_def)
  have cap: "capped (page_content no_url_page) = py_str ''Call us''"
    by (simp add: page_lookup_simps capped_def max_chars_per_page_def length_py_str)
  from missing_keys_defaults [of no_url_page "[small_page]" "[no_url_page]" no_content_page] h1 h2
  have "prepare_content_for_extraction [no_url_page]
            = py_str ''--- PAGE: Unknown URL ---\<newline>'' @ capped (page_content no_url_page)
                @ py_str ''\<newline>\<newline>''"
    and "prepare_content_for_extraction ([small_page] @ no_content_page # [no_url_page])
              = prepare_content_for_extraction ([small_page] @ [no_url_page])"
    by blast+
  with h1 h2 cap show ?thesis by (simp add: py_str_def)
qed

section \<open>Properties of the extraction orchestrator\<close>

text \<open>
  Claim C1, as amended. Whenever a client is passed or the credential is set,
  \<open>extract_business_data\<close> raises nothing, for every sequence of pages (empty, all blank
  or any other), every service and every log. When the call of the service raises, it
  returns the record \<open>BusinessData()\<close>; when the call yields a parsed record, it returns
  that record as it is and writes nothing to the log. In both cases the returned value is a
  \<open>BusinessData\<close> record, which has every field with its type. What is returned when the
  answer could not be parsed is not part of the statement.
\<close>

theorem extract_returns_record:
  assumes "client \<noteq> None \<or> credential_set env"
  shows "(\<exists>v. fst (extract_business_data env service lg pages_data client) = Inr v)
    \<and> (\<forall>e. service (used_client env client) (generation_request pages_data) = Inl e
          \<longrightarrow> fst (extract_business_data env service lg pages_data client)
                = Inr (Some BusinessData_default))
    \<and> (\<forall>r. service (used_client env client) (generation_request pages_data) = Inr (Some r)
          \<longrightarrow> extract_business_data env service lg pages_data client = (Inr (Some r), lg))"
  using extract_with_client [OF assms, of service lg pages_data]
  by (simp split: sum.splits)

theorem extract_returns_record_witness:
  "credential_set key_settings
   \<and> fst (extract_business_data key_settings failing_service [] [] None)
       = Inr (Some BusinessData_default)
   \<and> fst (extract_business_data no_key_settings failing_service []
            [blank_page, no_content_page] (Some stub_client))
       = Inr (Some BusinessData_default)
   \<and> extract_business_data no_key_settings answering_service [] [small_page]
         (Some stub_client)
       = (Inr (Some (BusinessData_default\<lparr>phoneNumber := py_str ''(555) 111-2222''\<rparr>)), [])"
proof -
  have h1: "None \<noteq> None \<or> credential_set key_settings"
    by (simp add: example_settings)
  have h2: "Some stub_client \<noteq> None \<or> credential_set no_key_settings"
    by simp
  from extract_returns_record [OF h1, of failing_service "[]" "[]"]
  have a: "fst (extract_business_data key_settings failing_service [] [] None)
       = Inr (Some BusinessData_default)"
    by (simp add: failing_service_def)
  from extract_returns_record [OF h2, of failing_service "[]" "[blank_page, no_content_page]"]
  have b: "fst (extract_business_data no_key_settings failing_service []
            [blank_page, no_content_page] (Some stub_client))
       = Inr (Some BusinessData_default)"
    by (simp add: failing_service_def)
  from extract_returns_record [OF h2, of answering_service "[]" "[small_page]"]
  have c: "extract_business_data no_key_settings answering_service [] [small_page]
         (Some stub_client)
       = (Inr (Some (BusinessData_default\<lparr>phoneNumber := py_str ''(555) 111-2222''\<rparr>)), [])"
    by (simp add: answering_service_def)
  from a b c show ?thesis by (simp add: example_settings)
qed

text \<open>
  Claim C1 as stated fails: called without a client when the credential is not set,
  \<open>extract_business_data\<close> raises the \<open>ValueError\<close> of \<open>get_gemini_client\<close>, which is
  called before the \<open>try\<close>.
\<close>

theorem extract_raises_counterexample:
  "fst (extract_business_data no_key_settings answering_service [] [small_page] None)
     = Inl (PyException ''ValueError''
         (py_str ''Gemini API key is required. Set GEMINI_API_KEY environment variable.''))"
  using extract_no_client [of None no_key_settings answering_service "[]" "[small_page]"]
  by (simp add: example_settings configuration_error_def)

text \<open>
  Claim C2. When the call of the service raises, \<open>extract_business_data\<close> appends one
  error record to the log, with the message of the exception and the exception itself,
  and returns \<open>BusinessData()\<close>, the same record for every input: every string empty,
  every list empty, \<open>is_24_7\<close> false and every day of \<open>businessHours\<close> empty.
\<close>

theorem extract_failure_gives_defaults:
  assumes "client \<noteq> None \<or> credential_set env"
    and "service (used_client env client) (generation_request pages_data) = Inl e"
  shows "extract_business_data env service lg pages_data client
      = (Inr (Some BusinessData_default),
         lg @ [\<lparr>levelname = ''ERROR'',
                msg = py_str ''Error calling Gemini API: '' @ exc_str e,
                exc_info = Some e\<rparr>])
    \<and> BusinessData_default
      = \<lparr>name = [], phoneNumber = [], address = [], city = [], state = [], pincode = [],
         website = [], email = [],
         businessHours = \<lparr>monday = [], tuesday = [], wednesday = [], thursday = [],
           friday = [], saturday = [], sunday = []\<rparr>,
         is_24_7 = False, holidayClosures = [], professionals = [], manager = [],
         operationsLead = [], servicesOffered = [], servicesNotOffered = [],
         specialties = []\<rparr>"
  using extract_with_client [OF assms(1), of service lg pages_data] assms(2)
  by (simp add: logger_error_def BusinessData_default_def BusinessHours_default_def)

theorem extract_failure_gives_defaults_witness:
  "credential_set key_settings
   \<and> failing_service (used_client key_settings None) (generation_request [small_page])
       = Inl timeout_error
   \<and> extract_business_data key_settings failing_service [] [small_page] None
       = (Inr (Some BusinessData_default),
          [\<lparr>levelname = ''ERROR'',
            msg = py_str ''Error calling Gemini API: timed out'',
            exc_info = Some timeout_error\<rparr>])"
proof -
  have h1: "None \<noteq> None \<or> credential_set key_settings"
    by (simp add: example_settings)
  have h2: "failing_service (used_client key_settings None) (generation_request [small_page])
       = Inl timeout_error"
    by (simp add: failing_service_def)
  have m: "py_str ''Error calling Gemini API: '' @ exc_str timeout_error
      = py_str ''Error calling Gemini API: timed out''"
    by (simp add: timeout_error_def py_str_def)
  show ?thesis
    using extract_failure_gives_defaults [of None key_settings failing_service "[small_page]"
        timeout_error "[]", OF h1 h2] h2 m
    by (simp add: example_settings)
qed

text \<open>
  Claim C3. The fields of \<open>BusinessData\<close> annotated \<open>str\<close> are the twelve of the
  claim with one difference: the class declares \<open>phoneNumber\<close> and has no field
  \<open>phoneNumbers\<close>, while the prompt of \<open>_build_extraction_prompt\<close> asks the service for
  \<open>phoneNumbers\<close>, as the claim does.
\<close>

theorem BusinessData_declares_phoneNumber:
  "str_fields BusinessData_fields =
     [''name'', ''phoneNumber'', ''address'', ''city'', ''state'', ''pincode'', ''website'',
      ''email'', ''holidayClosures'', ''manager'', ''operationsLead'', ''servicesNotOffered'']
   \<and> ''phoneNumbers'' \<notin> set (map fst BusinessData_fields)
   \<and> take 42 (drop 473 build_extraction_prompt)
       = py_str ''2. phoneNumbers: Extract ALL phone numbers''"
proof -
  have a: "str_fields BusinessData_fields =
     [''name'', ''phoneNumber'', ''address'', ''city'', ''state'', ''pincode'', ''website'',
      ''email'', ''holidayClosures'', ''manager'', ''operationsLead'', ''servicesNotOffered'']"
    by (simp add: str_fields_def BusinessData_fields_def)
  have b: "''phoneNumbers'' \<notin> set (map fst BusinessData_fields)"
    by (simp add: BusinessData_fields_def)
  have c: "take 42 (drop 473 build_extraction_prompt)
       = py_str ''2. phoneNumbers: Extract ALL phone numbers''"
    unfolding build_extraction_prompt_def py_str_def take_map drop_map
    by simp
  from a b c show ?thesis by blast
qed

text \<open>
  Claim C8, as amended. \<open>get_gemini_client\<close> raises exactly when the credential is not
  set, and then the configuration error. \<open>extract_business_data\<close> lets an exception
  reach its caller exactly when it is called without a client and the credential is not
  set, and the exception is then the configuration error: no failure of the service is
  ever seen as an exception.
\<close>

theorem only_configuration_error_propagates:
  "(get_gemini_client env = Inl e \<longleftrightarrow> \<not> credential_set env \<and> e = configuration_error)
   \<and> (fst (extract_business_data env service lg pages_data client) = Inl e
        \<longleftrightarrow> client = None \<and> \<not> credential_set env \<and> e = configuration_error)"
proof (cases "client \<noteq> None \<or> credential_set env")
  case True
  from extract_with_client [OF True, of service lg pages_data]
  have "fst (extract_business_data env service lg pages_data client) \<noteq> Inl e"
    by (simp split: sum.splits)
  with True show ?thesis
    by (auto simp add: get_gemini_client_Inl)
next
  case False
  then have "client = None" "\<not> credential_set env" by simp_all
  from extract_no_client [OF this, of service lg pages_data] this show ?thesis
    by (auto simp add: get_gemini_client_Inl)
qed

theorem only_configuration_error_propagates_witness:
  "fst (extract_business_data key_settings failing_service [] [small_page] None)
     \<noteq> Inl timeout_error
   \<and> fst (extract_business_data no_key_settings failing_service [] [small_page]
            (Some stub_client)) \<noteq> Inl configuration_error"
  using only_configuration_error_propagates [of key_settings timeout_error failing_service
      "[]" "[small_page]" None]
    only_configuration_error_propagates [of no_key_settings configuration_error
      failing_service "[]" "[small_page]" "Some stub_client"]
  by (simp add: example_settings)

text \<open>
  Claim C8 as stated fails in its first part: the client is constructed inside
  \<open>extract_business_data\<close> when none is passed, so the configuration error is raised
  during extraction. Here the key is the empty string and the input is empty.
\<close>

theorem configuration_error_during_extraction_counterexample:
  "extract_business_data empty_key_settings failing_service [] [] None
     = (Inl configuration_error, [])
   \<and> configuration_error = PyException ''ValueError''
       (py_str ''Gemini API key is required. Set GEMINI_API_KEY environment variable.'')"
  using extract_no_client [of None empty_key_settings failing_service "[]" "[]"]
  by (simp add: example_settings configuration_error_def)

end
